theory Spec2Isabelle
  imports Complex_Main "HOL-Library.Multiset"
begin

section \<open>Python values\<close>

text \<open>
  The notebook \<^verbatim>\<open>notebooks/01_broadcast_join.py\<close> works on the bodies of three HTTP
  responses after \<^verbatim>\<open>.json()\<close> has parsed them. A parsed body is a value of \<open>json\<close>.

  A Python string is a sequence of Unicode code points, so \<open>pystr\<close> is a list of code
  points and \<open>[:2]\<close> counts code points. \<open>lit\<close> writes an ASCII literal of the source.

  A \<open>JObj\<close> is a Python dict given as an association list; the first binding of a key is
  the dict's value for it. \<open>JInt\<close> is Python's unbounded \<open>int\<close>.

  A Python \<open>float\<close> is an IEEE double: infinite, not a number, or finite. A finite double
  is named by its shortest decimal form, the decimal that \<^verbatim>\<open>repr\<close> prints and that
  parses back to the same double: \<open>Finite q\<close> is the double that prints as \<open>q\<close>. This is
  the form in which the engine reads a double when it rounds it. A number of a response
  body is the double it parses to, so \<^verbatim>\<open>12.345\<close> is \<open>Finite (12345 / 1000)\<close> and
  \<^verbatim>\<open>1e400\<close>, too large for a double, is \<open>PosInf\<close>.
\<close>

type_synonym codepoint = nat
type_synonym pystr = "codepoint list"

datatype pyfloat = Finite rat | PosInf | NegInf | NaN

definition lit :: "string \<Rightarrow> pystr" where
  "lit s = map of_char s"

datatype json =
    JNull
  | JBool bool
  | JInt int
  | JFloat pyfloat
  | JStr pystr
  | JArr "json list"
  | JObj "(pystr \<times> json) list"

text \<open>
  Every exception of the source is a value. The notebook catches nothing, so the first
  error ends the run. \<open>Unsupported\<close> is not an exception of Python: it marks the inputs
  this development does not follow further (they are named where they arise), so a
  property of the results \<open>Inr\<close> says nothing about them.
\<close>

datatype error =
    KeyError
  | TypeError
  | AttributeError
  | ValueError
  | NetworkError
  | Unsupported

definition and_then :: "error + 'a \<Rightarrow> ('a \<Rightarrow> error + 'b) \<Rightarrow> error + 'b" where
  "and_then r f = (case r of Inl e \<Rightarrow> Inl e | Inr x \<Rightarrow> f x)"

text \<open>Truth value of an object, as \<^verbatim>\<open>if x\<close> and \<^verbatim>\<open>x or y\<close> test it.\<close>

fun truthy :: "json \<Rightarrow> bool" where
  "truthy JNull = False"
| "truthy (JBool b) = b"
| "truthy (JInt i) = (i \<noteq> 0)"
| "truthy (JFloat x) = (x \<noteq> Finite 0)"
| "truthy (JStr s) = (s \<noteq> [])"
| "truthy (JArr xs) = (xs \<noteq> [])"
| "truthy (JObj kvs) = (kvs \<noteq> [])"

definition py_or :: "json \<Rightarrow> json \<Rightarrow> json" where
  "py_or a b = (if truthy a then a else b)"

text \<open>\<^verbatim>\<open>x[k]\<close> with a string key \<open>k\<close>: only a dict accepts it.\<close>

fun py_getitem :: "json \<Rightarrow> pystr \<Rightarrow> error + json" where
  "py_getitem (JObj kvs) k = (case map_of kvs k of None \<Rightarrow> Inl KeyError | Some v \<Rightarrow> Inr v)"
| "py_getitem _ k = Inl TypeError"

text \<open>\<^verbatim>\<open>x.get(k)\<close>: \<open>None\<close> for an absent key; only a dict has the method.\<close>

fun dict_get :: "json \<Rightarrow> pystr \<Rightarrow> error + json" where
  "dict_get (JObj kvs) k = (case map_of kvs k of None \<Rightarrow> Inr JNull | Some v \<Rightarrow> Inr v)"
| "dict_get _ k = Inl AttributeError"

text \<open>
  The items a \<^verbatim>\<open>for\<close> loop or \<^verbatim>\<open>+=\<close> on a list draws from an object: the elements
  of a list, the one-character strings of a string, the keys of a dict.
\<close>

fun py_iter :: "json \<Rightarrow> error + json list" where
  "py_iter (JArr xs) = Inr xs"
| "py_iter (JStr s) = Inr (map (\<lambda>c. JStr [c]) s)"
| "py_iter (JObj kvs) = Inr (map JStr (remdups (map fst kvs)))"
| "py_iter _ = Inl TypeError"

text \<open>
  \<^verbatim>\<open>x[:2]\<close>: the first two items of a sequence; every other object raises (an
  exception that is \<open>TypeError\<close> but for a dict on Python 3.12 and later, where it is
  \<open>KeyError\<close>; no property here tells them apart).
\<close>

fun py_slice2 :: "json \<Rightarrow> error + json" where
  "py_slice2 (JStr s) = Inr (JStr (take 2 s))"
| "py_slice2 (JArr xs) = Inr (JArr (take 2 xs))"
| "py_slice2 _ = Inl TypeError"

text \<open>
  \<^verbatim>\<open>str.upper()\<close> maps every code point to its upper-case form, which can be several
  code points long. On ASCII it maps \<open>a\<close>..\<open>z\<close> to \<open>A\<close>..\<open>Z\<close> and keeps the rest. The
  mapping of the other code points is a table of the Python runtime; it is the
  parameter \<open>ucd\<close>. \<open>ucd_latin1\<close> is that table on U+0080..U+00FF (it keeps the code
  points above), for running examples.
\<close>

definition upper_cp :: "(codepoint \<Rightarrow> pystr) \<Rightarrow> codepoint \<Rightarrow> pystr" where
  "upper_cp ucd c =
     (if c < 128 then [if 97 \<le> c \<and> c \<le> 122 then c - 32 else c] else ucd c)"

definition str_upper :: "(codepoint \<Rightarrow> pystr) \<Rightarrow> pystr \<Rightarrow> pystr" where
  "str_upper ucd s = concat (map (upper_cp ucd) s)"

definition ucd_latin1 :: "codepoint \<Rightarrow> pystr" where
  "ucd_latin1 c =
     (if c = 223 then [83, 83]
      else if c = 181 then [924]
      else if c = 255 then [376]
      else if 224 \<le> c \<and> c \<le> 254 \<and> c \<noteq> 247 then [c - 32]
      else [c])"

fun py_upper :: "(codepoint \<Rightarrow> pystr) \<Rightarrow> json \<Rightarrow> error + pystr" where
  "py_upper ucd (JStr s) = Inr (str_upper ucd s)"
| "py_upper ucd _ = Inl AttributeError"

text \<open>\<^verbatim>\<open>str(i)\<close> of an integer: its decimal digits, with a minus sign when negative.\<close>

fun str_nat :: "nat \<Rightarrow> pystr" where
  "str_nat n = (if n < 10 then [48 + n] else str_nat (n div 10) @ [48 + n mod 10])"

declare str_nat.simps [simp del]

definition str_int :: "int \<Rightarrow> pystr" where
  "str_int i = (if i < 0 then 45 # str_nat (nat (- i)) else str_nat (nat i))"

text \<open>
  \<^verbatim>\<open>f"{x}"\<close>: the string form of \<open>x\<close>. The forms of floats, lists and dicts are not
  followed.
\<close>

fun py_format :: "json \<Rightarrow> error + pystr" where
  "py_format (JInt i) = Inr (str_int i)"
| "py_format (JStr s) = Inr s"
| "py_format JNull = Inr (lit ''None'')"
| "py_format (JBool b) = Inr (if b then lit ''True'' else lit ''False'')"
| "py_format _ = Inl Unsupported"

text \<open>
  \<^verbatim>\<open>float(x)\<close>. An integer up to \<open>2^53\<close> in size is a double (a larger one is rounded
  by Python or raises \<open>OverflowError\<close>, and is not followed), a float is kept, infinite
  and not-a-number included, a bool is 1.0 or 0.0, \<open>None\<close>, a list and a dict raise
  \<open>TypeError\<close>. A string is parsed by Python; parsing is not followed.
\<close>

fun py_float :: "json \<Rightarrow> error + pyfloat" where
  "py_float (JInt i) = (if \<bar>i\<bar> \<le> 2 ^ 53 then Inr (Finite (of_int i)) else Inl Unsupported)"
| "py_float (JFloat x) = Inr x"
| "py_float (JBool b) = Inr (Finite (if b then 1 else 0))"
| "py_float (JStr s) = Inl Unsupported"
| "py_float _ = Inl TypeError"

text \<open>
  The body of an HTTP response as \<^verbatim>\<open>requests.get(url, timeout=30).json()\<close> returns
  it, or the exception the call raises.
\<close>

type_synonym response = "error + json"

section \<open>The engine: tables, left join, rounding\<close>

text \<open>
  PySpark is not part of the repository. Its operations are modelled as documented, for
  the tables the notebook builds. A table is the list of its rows; the engine fixes no
  row order, and the order written here is the one of a sequential evaluation. A
  nullable cell is an \<open>option\<close>.

  \<^verbatim>\<open>spark.createDataFrame(rows)\<close> infers the schema from a list of dicts. It raises
  \<open>ValueError\<close> on an empty list and on a column that is \<open>None\<close> in every row. The
  cells covered are strings, integers in the range of a 64-bit \<open>long\<close>, and \<open>None\<close>;
  any other cell is \<open>Unsupported\<close>.
\<close>

fun string_cell :: "json \<Rightarrow> error + pystr option" where
  "string_cell (JStr s) = Inr (Some s)"
| "string_cell JNull = Inr None"
| "string_cell _ = Inl Unsupported"

fun long_cell :: "json \<Rightarrow> error + int option" where
  "long_cell (JInt i) =
     (if - (2 ^ 63) \<le> i \<and> i < 2 ^ 63 then Inr (Some i) else Inl Unsupported)"
| "long_cell JNull = Inr None"
| "long_cell _ = Inl Unsupported"

fun map_err :: "('a \<Rightarrow> error + 'b) \<Rightarrow> 'a list \<Rightarrow> error + 'b list" where
  "map_err f [] = Inr []"
| "map_err f (x # xs) =
     and_then (f x) (\<lambda>y. and_then (map_err f xs) (\<lambda>ys. Inr (y # ys)))"

definition all_null :: "('r \<Rightarrow> 'c option) \<Rightarrow> 'r list \<Rightarrow> bool" where
  "all_null col tbl = list_all (\<lambda>r. col r = None) tbl"

text \<open>
  A join condition \<open>a = b\<close> holds only between two cells that are not null.
\<close>

fun key_eq :: "'k option \<Rightarrow> 'k option \<Rightarrow> bool" where
  "key_eq (Some a) (Some b) = (a = b)"
| "key_eq _ _ = False"

text \<open>
  \<^verbatim>\<open>left.join(right, on=key, how="left")\<close>: every row of \<open>left\<close> is paired with each
  row of \<open>right\<close> whose key equals its own; a row with no partner is kept once, with
  nulls for the columns of \<open>right\<close>.
\<close>

definition matches :: "('l \<Rightarrow> 'k option) \<Rightarrow> ('r \<Rightarrow> 'k option) \<Rightarrow> 'l \<Rightarrow> 'r list \<Rightarrow> 'r list" where
  "matches kl kr l rs = filter (\<lambda>r. key_eq (kl l) (kr r)) rs"

definition joined :: "('l \<Rightarrow> 'k option) \<Rightarrow> ('r \<Rightarrow> 'k option) \<Rightarrow> 'r list \<Rightarrow> 'l \<Rightarrow> ('l \<times> 'r option) list" where
  "joined kl kr rs l =
     (case matches kl kr l rs of
        [] \<Rightarrow> [(l, None)]
      | m # ms \<Rightarrow> map (\<lambda>r. (l, Some r)) (m # ms))"

definition left_join :: "('l \<Rightarrow> 'k option) \<Rightarrow> ('r \<Rightarrow> 'k option) \<Rightarrow> 'l list \<Rightarrow> 'r list \<Rightarrow> ('l \<times> 'r option) list" where
  "left_join kl kr ls rs = concat (map (joined kl kr rs) ls)"

text \<open>
  \<^verbatim>\<open>F.round(col, d)\<close> on a column of doubles returns a double that is infinite or not a
  number as it is. It reads a finite double in its decimal form, rounds that decimal to
  \<open>d\<close> places, halves away from zero (HALF_UP), and returns the double of the result.
\<close>

definition half_up :: "nat \<Rightarrow> rat \<Rightarrow> rat" where
  "half_up d q =
     (if q < 0 then - (of_int \<lfloor>- q * 10 ^ d + 1 / 2\<rfloor> / 10 ^ d)
      else of_int \<lfloor>q * 10 ^ d + 1 / 2\<rfloor> / 10 ^ d)"

fun spark_round :: "nat \<Rightarrow> pyfloat \<Rightarrow> pyfloat" where
  "spark_round d (Finite q) = Finite (half_up d q)"
| "spark_round d x = x"

text \<open>\<^verbatim>\<open>broadcast(df)\<close> marks a table for replication to the workers; the table is the same.\<close>

definition broadcast :: "'r list \<Rightarrow> 'r list" where
  "broadcast df = df"

section \<open>The reference-data loader\<close>

text \<open>
  \<^verbatim>\<open>
  rows = [
      {
          "country_code": c.get("cca2"),
          "country_name": c["name"]["common"],
          "region": c.get("region"),
      }
      for c in data
      if c.get("cca2")
  ]
  return spark.createDataFrame(rows)
  \<close>
\<close>

record country_dict =
  cd_country_code :: json
  cd_country_name :: json
  cd_region :: json

record country_row =
  c_country_code :: "pystr option"
  c_country_name :: "pystr option"
  c_region :: "pystr option"

definition country_dict_of :: "json \<Rightarrow> error + country_dict" where
  "country_dict_of c =
     and_then (dict_get c (lit ''cca2'')) (\<lambda>code.
     and_then (py_getitem c (lit ''name'')) (\<lambda>name.
     and_then (py_getitem name (lit ''common'')) (\<lambda>common.
     and_then (dict_get c (lit ''region'')) (\<lambda>region.
       Inr \<lparr>cd_country_code = code, cd_country_name = common, cd_region = region\<rparr>))))"

fun countries_rows :: "json list \<Rightarrow> error + country_dict list" where
  "countries_rows [] = Inr []"
| "countries_rows (c # cs) =
     and_then (dict_get c (lit ''cca2'')) (\<lambda>code.
       if truthy code
       then and_then (country_dict_of c) (\<lambda>d.
            and_then (countries_rows cs) (\<lambda>ds. Inr (d # ds)))
       else countries_rows cs)"

definition country_row_of :: "country_dict \<Rightarrow> error + country_row" where
  "country_row_of d =
     and_then (string_cell (cd_country_code d)) (\<lambda>code.
     and_then (string_cell (cd_country_name d)) (\<lambda>name.
     and_then (string_cell (cd_region d)) (\<lambda>region.
       Inr \<lparr>c_country_code = code, c_country_name = name, c_region = region\<rparr>)))"

definition createDataFrame_countries :: "country_dict list \<Rightarrow> error + country_row list" where
  "createDataFrame_countries rows =
     (if rows = [] then Inl ValueError
      else and_then (map_err country_row_of rows) (\<lambda>tbl.
        if all_null c_country_code tbl \<or> all_null c_country_name tbl \<or> all_null c_region tbl
        then Inl ValueError else Inr tbl))"

definition get_countries_df :: "response \<Rightarrow> error + country_row list" where
  "get_countries_df resp =
     and_then resp (\<lambda>data.
     and_then (py_iter data) (\<lambda>cs.
     and_then (countries_rows cs) createDataFrame_countries))"

section \<open>The fact-data builder\<close>

text \<open>
  \<^verbatim>\<open>
  users = []
  for i in range(max_pages):
      users += requests.get(users_url.format(i * 100), timeout=30).json()["users"]
  \<close>
  An endpoint is the function from the \<^verbatim>\<open>skip\<close> parameter of the request to the
  response. The same loop fetches the carts under the key \<^verbatim>\<open>"carts"\<close>.
\<close>

fun fetch_pages :: "(nat \<Rightarrow> response) \<Rightarrow> pystr \<Rightarrow> nat list \<Rightarrow> json list \<Rightarrow> error + json list" where
  "fetch_pages api key [] acc = Inr acc"
| "fetch_pages api key (i # pages) acc =
     and_then (api (i * 100)) (\<lambda>body.
     and_then (py_getitem body key) (\<lambda>page.
     and_then (py_iter page) (\<lambda>items.
       fetch_pages api key pages (acc @ items))))"

definition fetch_all :: "(nat \<Rightarrow> response) \<Rightarrow> pystr \<Rightarrow> int \<Rightarrow> error + json list" where
  "fetch_all api key max_pages = fetch_pages api key [0..<nat max_pages] []"

text \<open>
  \<^verbatim>\<open>
  users_rows = [
      {
          "userId": u["id"],
          "country_code": (u["address"]["country"] or "XX")[:2].upper(),
      }
      for u in users
  ]
  \<close>
\<close>

record user_dict =
  ud_userId :: json
  ud_country_code :: pystr

record user_row =
  u_userId :: "int option"
  u_country_code :: pystr

definition country_code_of :: "(codepoint \<Rightarrow> pystr) \<Rightarrow> json \<Rightarrow> error + pystr" where
  "country_code_of ucd u =
     and_then (py_getitem u (lit ''address'')) (\<lambda>address.
     and_then (py_getitem address (lit ''country'')) (\<lambda>country.
     and_then (py_slice2 (py_or country (JStr (lit ''XX'')))) (\<lambda>prefix.
       py_upper ucd prefix)))"

definition user_dict_of :: "(codepoint \<Rightarrow> pystr) \<Rightarrow> json \<Rightarrow> error + user_dict" where
  "user_dict_of ucd u =
     and_then (py_getitem u (lit ''id'')) (\<lambda>uid.
     and_then (country_code_of ucd u) (\<lambda>code.
       Inr \<lparr>ud_userId = uid, ud_country_code = code\<rparr>))"

definition users_rows :: "(codepoint \<Rightarrow> pystr) \<Rightarrow> json list \<Rightarrow> error + user_dict list" where
  "users_rows ucd users = map_err (user_dict_of ucd) users"

definition user_row_of :: "user_dict \<Rightarrow> error + user_row" where
  "user_row_of d =
     and_then (long_cell (ud_userId d)) (\<lambda>uid.
       Inr \<lparr>u_userId = uid, u_country_code = ud_country_code d\<rparr>)"

definition createDataFrame_users :: "user_dict list \<Rightarrow> error + user_row list" where
  "createDataFrame_users rows =
     (if rows = [] then Inl ValueError
      else and_then (map_err user_row_of rows) (\<lambda>tbl.
        if all_null u_userId tbl then Inl ValueError else Inr tbl))"

text \<open>
  \<^verbatim>\<open>
  sales_rows = [
      {
          "sale_id": f"{cart['id']}",
          "userId": cart["userId"],
          "amount": float(cart["total"]),
      }
      for cart in carts
  ]
  \<close>
\<close>

record sale_dict =
  sd_sale_id :: pystr
  sd_userId :: json
  sd_amount :: pyfloat

record sale_row =
  s_sale_id :: pystr
  s_userId :: "int option"
  s_amount :: pyfloat

definition sale_dict_of :: "json \<Rightarrow> error + sale_dict" where
  "sale_dict_of cart =
     and_then (py_getitem cart (lit ''id'')) (\<lambda>cid.
     and_then (py_format cid) (\<lambda>sale_id.
     and_then (py_getitem cart (lit ''userId'')) (\<lambda>uid.
     and_then (py_getitem cart (lit ''total'')) (\<lambda>total.
     and_then (py_float total) (\<lambda>amount.
       Inr \<lparr>sd_sale_id = sale_id, sd_userId = uid, sd_amount = amount\<rparr>)))))"

definition sales_rows :: "json list \<Rightarrow> error + sale_dict list" where
  "sales_rows carts = map_err sale_dict_of carts"

definition sale_row_of :: "sale_dict \<Rightarrow> error + sale_row" where
  "sale_row_of d =
     and_then (long_cell (sd_userId d)) (\<lambda>uid.
       Inr \<lparr>s_sale_id = sd_sale_id d, s_userId = uid, s_amount = sd_amount d\<rparr>)"

definition createDataFrame_sales :: "sale_dict list \<Rightarrow> error + sale_row list" where
  "createDataFrame_sales rows =
     (if rows = [] then Inl ValueError
      else and_then (map_err sale_row_of rows) (\<lambda>tbl.
        if all_null s_userId tbl then Inl ValueError else Inr tbl))"

text \<open>
  \<^verbatim>\<open>
  return (
      df_sales.join(df_users, on="userId", how="left")
      .select("sale_id", "country_code", "amount")
      .withColumn("amount", F.round("amount", 2))
  )
  \<close>
\<close>

record fact_row =
  f_sale_id :: pystr
  f_country_code :: "pystr option"
  f_amount :: pyfloat

definition select_fact :: "sale_row \<times> user_row option \<Rightarrow> fact_row" where
  "select_fact p =
     \<lparr>f_sale_id = s_sale_id (fst p),
      f_country_code = map_option u_country_code (snd p),
      f_amount = s_amount (fst p)\<rparr>"

definition with_rounded_amount :: "fact_row \<Rightarrow> fact_row" where
  "with_rounded_amount r = r\<lparr>f_amount := spark_round 2 (f_amount r)\<rparr>"

definition sales_fact :: "sale_row list \<Rightarrow> user_row list \<Rightarrow> fact_row list" where
  "sales_fact df_sales df_users =
     map with_rounded_amount (map select_fact (left_join s_userId u_userId df_sales df_users))"

definition users_df :: "(codepoint \<Rightarrow> pystr) \<Rightarrow> int \<Rightarrow> (nat \<Rightarrow> response) \<Rightarrow> error + user_row list" where
  "users_df ucd max_pages users_api =
     and_then (fetch_all users_api (lit ''users'') max_pages) (\<lambda>users.
     and_then (users_rows ucd users) createDataFrame_users)"

definition carts_df :: "int \<Rightarrow> (nat \<Rightarrow> response) \<Rightarrow> error + sale_row list" where
  "carts_df max_pages carts_api =
     and_then (fetch_all carts_api (lit ''carts'') max_pages) (\<lambda>carts.
     and_then (sales_rows carts) createDataFrame_sales)"

definition get_sales_df ::
  "(codepoint \<Rightarrow> pystr) \<Rightarrow> int \<Rightarrow> (nat \<Rightarrow> response) \<Rightarrow> (nat \<Rightarrow> response) \<Rightarrow> error + fact_row list" where
  "get_sales_df ucd max_pages users_api carts_api =
     and_then (users_df ucd max_pages users_api) (\<lambda>df_users.
     and_then (carts_df max_pages carts_api) (\<lambda>df_sales.
       Inr (sales_fact df_sales df_users)))"

section \<open>The enrichment join\<close>

text \<open>
  \<^verbatim>\<open>
  df_countries = get_countries_df()
  df_sales     = get_sales_df(max_pages=20)
  df_enriched = (
      df_sales.join(broadcast(df_countries), on="country_code", how="left")
      .select("sale_id", "amount", "country_name", "region")
  )
  \<close>
\<close>

record enriched_row =
  e_sale_id :: pystr
  e_amount :: pyfloat
  e_country_name :: "pystr option"
  e_region :: "pystr option"

definition select_enriched :: "fact_row \<times> country_row option \<Rightarrow> enriched_row" where
  "select_enriched p =
     \<lparr>e_sale_id = f_sale_id (fst p),
      e_amount = f_amount (fst p),
      e_country_name = Option.bind (snd p) c_country_name,
      e_region = Option.bind (snd p) c_region\<rparr>"

definition df_enriched :: "fact_row list \<Rightarrow> country_row list \<Rightarrow> enriched_row list" where
  "df_enriched df_sales df_countries =
     map select_enriched (left_join f_country_code c_country_code df_sales (broadcast df_countries))"

text \<open>
  The script then writes \<open>df_enriched\<close> to a Delta table and prints the physical plan
  and the row count. \<open>pipeline\<close> is the script up to the table it writes.
\<close>

definition pipeline ::
  "(codepoint \<Rightarrow> pystr) \<Rightarrow> response \<Rightarrow> (nat \<Rightarrow> response) \<Rightarrow> (nat \<Rightarrow> response) \<Rightarrow> error + enriched_row list" where
  "pipeline ucd countries_resp users_api carts_api =
     and_then (get_countries_df countries_resp) (\<lambda>df_countries.
     and_then (get_sales_df ucd 20 users_api carts_api) (\<lambda>df_sales.
       Inr (df_enriched df_sales df_countries)))"

section \<open>Runs on the engine\<close>

text \<open>
  The engine holds a table as an unordered collection of rows, so a run may meet the
  rows of each table in any order: \<open>df_countries\<close>, \<open>df_users\<close>, the carts table, the
  sales fact table and the enriched table are each some arrangement of the rows the
  sequential evaluation computes. \<open>pipeline_run\<close> relates the three endpoints to every
  output a run can write.
\<close>

inductive pipeline_run ::
  "(codepoint \<Rightarrow> pystr) \<Rightarrow> response \<Rightarrow> (nat \<Rightarrow> response) \<Rightarrow> (nat \<Rightarrow> response) \<Rightarrow>
   enriched_row list \<Rightarrow> bool" where
  run: "get_countries_df countries_resp = Inr tc \<Longrightarrow> mset df_countries = mset tc \<Longrightarrow>
        users_df ucd 20 users_api = Inr tu \<Longrightarrow> mset df_users = mset tu \<Longrightarrow>
        carts_df 20 carts_api = Inr ts \<Longrightarrow> mset df_carts = mset ts \<Longrightarrow>
        mset df_sales = mset (sales_fact df_carts df_users) \<Longrightarrow>
        mset out = mset (df_enriched df_sales df_countries) \<Longrightarrow>
        pipeline_run ucd countries_resp users_api carts_api out"

section \<open>Vocabulary of the properties\<close>

text \<open>
  A country object is a dict. The loader keeps an entry of the response when its
  \<^verbatim>\<open>cca2\<close> is there and is not \<open>null\<close>, empty or another false value.
\<close>

fun is_dict :: "json \<Rightarrow> bool" where
  "is_dict (JObj kvs) = True"
| "is_dict _ = False"

definition has_code :: "json \<Rightarrow> bool" where
  "has_code c \<longleftrightarrow> (case dict_get c (lit ''cca2'') of Inr v \<Rightarrow> truthy v | Inl e \<Rightarrow> False)"

text \<open>
  The string form of an integer is its decimal numeral: digits only, no leading zero but
  for the numeral of zero, the digits denoting the number, and a minus sign in front when
  it is negative. The string form of a string is the string, that of \<open>None\<close>, \<open>True\<close>
  and \<open>False\<close> is the name. These are stated on their own, not by the functions that
  compute them.
\<close>

definition nat_of_digits :: "pystr \<Rightarrow> nat" where
  "nat_of_digits s = foldl (\<lambda>a d. 10 * a + (d - 48)) 0 s"

definition decimal_numeral :: "pystr \<Rightarrow> nat \<Rightarrow> bool" where
  "decimal_numeral s n \<longleftrightarrow>
     s \<noteq> [] \<and> list_all (\<lambda>d. 48 \<le> d \<and> d \<le> 57) s \<and> (length s = 1 \<or> hd s \<noteq> 48) \<and>
     nat_of_digits s = n"

fun string_form :: "json \<Rightarrow> pystr \<Rightarrow> bool" where
  "string_form (JInt i) s =
     (if i < 0 then s \<noteq> [] \<and> hd s = 45 \<and> decimal_numeral (tl s) (nat (- i))
      else decimal_numeral s (nat i))"
| "string_form (JStr t) s = (s = t)"
| "string_form JNull s = (s = lit ''None'')"
| "string_form (JBool b) s = (s = (if b then lit ''True'' else lit ''False''))"
| "string_form _ s = False"

text \<open>
  A cast to floating point gives the double with the value of the number: that of an
  integer, the float itself, 1.0 and 0.0 for the booleans.
\<close>

fun float_cast :: "json \<Rightarrow> pyfloat \<Rightarrow> bool" where
  "float_cast (JInt i) x = (x = Finite (of_int i))"
| "float_cast (JFloat y) x = (x = y)"
| "float_cast (JBool b) x = (x = Finite (if b then 1 else 0))"
| "float_cast _ x = False"

text \<open>
  A finite amount \<open>r\<close> is the amount \<open>q\<close> rounded to 2 decimal places when it is a
  whole number of hundredths, at most half a hundredth away from \<open>q\<close>, and the one
  farther from zero when two such numbers are that near.
\<close>

definition rounded_2dp :: "rat \<Rightarrow> rat \<Rightarrow> bool" where
  "rounded_2dp q r \<longleftrightarrow>
     of_int \<lfloor>r * 100\<rfloor> = r * 100 \<and> \<bar>r - q\<bar> \<le> 1 / 200 \<and>
     (\<bar>r - q\<bar> = 1 / 200 \<longrightarrow> \<bar>q\<bar> < \<bar>r\<bar>)"

section \<open>Example inputs\<close>

text \<open>
  Bodies in the shape the two APIs document: a country object of REST Countries, a user
  and a cart of DummyJSON, an endpoint that serves its items on the first page and empty
  pages after it, and an endpoint that serves the same page whatever \<^verbatim>\<open>skip\<close> is.
  \<open>ex_fact\<close>, \<open>ex_country\<close> and \<open>ex_enriched\<close> write rows of the three tables.
\<close>

definition json_country :: "string \<Rightarrow> string \<Rightarrow> string \<Rightarrow> json" where
  "json_country code name region =
     JObj [(lit ''cca2'', JStr (lit code)),
           (lit ''name'', JObj [(lit ''common'', JStr (lit name))]),
           (lit ''region'', JStr (lit region))]"

definition json_user :: "int \<Rightarrow> json \<Rightarrow> json" where
  "json_user uid country =
     JObj [(lit ''id'', JInt uid), (lit ''address'', JObj [(lit ''country'', country)])]"

definition json_cart :: "int \<Rightarrow> int \<Rightarrow> json \<Rightarrow> json" where
  "json_cart cid uid amount =
     JObj [(lit ''id'', JInt cid), (lit ''userId'', JInt uid), (lit ''total'', amount)]"

definition one_page :: "string \<Rightarrow> json list \<Rightarrow> nat \<Rightarrow> response" where
  "one_page key items skip = Inr (JObj [(lit key, JArr (if skip = 0 then items else []))])"

definition same_page :: "string \<Rightarrow> json list \<Rightarrow> nat \<Rightarrow> response" where
  "same_page key items skip = Inr (JObj [(lit key, JArr items)])"

definition ex_fact :: "string \<Rightarrow> string option \<Rightarrow> rat \<Rightarrow> fact_row" where
  "ex_fact sale_id code amount =
     \<lparr>f_sale_id = lit sale_id, f_country_code = map_option lit code,
      f_amount = Finite amount\<rparr>"

definition ex_country :: "string \<Rightarrow> string \<Rightarrow> string \<Rightarrow> country_row" where
  "ex_country code name region =
     \<lparr>c_country_code = Some (lit code), c_country_name = Some (lit name),
      c_region = Some (lit region)\<rparr>"

definition ex_enriched :: "string \<Rightarrow> rat \<Rightarrow> string option \<Rightarrow> string option \<Rightarrow> enriched_row" where
  "ex_enriched sale_id amount name region =
     \<lparr>e_sale_id = lit sale_id, e_amount = Finite amount,
      e_country_name = map_option lit name, e_region = map_option lit region\<rparr>"

section \<open>Sequencing\<close>

lemma and_then_Inr_iff [simp]:
  "and_then r f = Inr y \<longleftrightarrow> (\<exists>x. r = Inr x \<and> f x = Inr y)"
  by (cases r) (simp_all add: and_then_def)

lemma and_then_Inr [simp]: "and_then (Inr x) f = f x"
  by (simp add: and_then_def)

lemma and_then_Inl [simp]: "and_then (Inl e) f = Inl e"
  by (simp add: and_then_def)

section \<open>Properties of the left join\<close>

lemma joined_nonempty: "joined kl kr rs l \<noteq> []"
  by (simp add: joined_def split: list.splits)

lemma joined_eq:
  "joined kl kr rs l =
     (if matches kl kr l rs = [] then [(l, None)] else map (\<lambda>r. (l, Some r)) (matches kl kr l rs))"
  by (simp add: joined_def split: list.splits)

lemma fst_joined: "p \<in> set (joined kl kr rs l) \<Longrightarrow> fst p = l"
  by (auto simp: joined_eq split: if_splits)

lemma length_joined: "length (joined kl kr rs l) = max 1 (length (matches kl kr l rs))"
  by (cases "matches kl kr l rs") (simp_all add: joined_eq)

lemma length_left_join:
  "length (left_join kl kr ls rs) = (\<Sum>l\<leftarrow>ls. max 1 (length (matches kl kr l rs)))"
  by (simp add: left_join_def length_concat comp_def length_joined)

lemma length_left_join_ge: "length ls \<le> length (left_join kl kr ls rs)"
  unfolding length_left_join by (induction ls) auto

lemma matches_distinct: "distinct (map kr rs) \<Longrightarrow> length (matches kl kr l rs) \<le> 1"
proof (induction rs)
  case Nil
  then show ?case by (simp add: matches_def)
next
  case (Cons r rs)
  show ?case
  proof (cases "key_eq (kl l) (kr r)")
    case True
    then obtain k where k: "kl l = Some k" "kr r = Some k"
      by (cases "kl l"; cases "kr r") auto
    have "filter (\<lambda>r'. key_eq (kl l) (kr r')) rs = []"
    proof (rule ccontr)
      assume "filter (\<lambda>r'. key_eq (kl l) (kr r')) rs \<noteq> []"
      then obtain r' where "r' \<in> set rs" "key_eq (kl l) (kr r')"
        by (auto simp: filter_empty_conv)
      with k have "kr r' = kr r" by (cases "kr r'") auto
      with \<open>r' \<in> set rs\<close> Cons.prems show False by (metis distinct.simps(2) imageI list.simps(9) set_map)
    qed
    with True show ?thesis by (simp add: matches_def)
  next
    case False
    with Cons show ?thesis by (simp add: matches_def)
  qed
qed

lemma length_left_join_distinct:
  assumes "distinct (map kr rs)"
  shows "length (left_join kl kr ls rs) = length ls"
proof -
  have "max 1 (length (matches kl kr l rs)) = 1" for l
    using matches_distinct [OF assms, of kl l] by simp
  then show ?thesis
    unfolding length_left_join by (induction ls) auto
qed

lemma map_fst_left_join_distinct:
  assumes "distinct (map kr rs)"
  shows "map fst (left_join kl kr ls rs) = ls"
proof -
  have one: "map fst (joined kl kr rs l) = [l]" for l
  proof -
    have "length (matches kl kr l rs) \<le> 1" by (rule matches_distinct [OF assms])
    then show ?thesis
      by (cases "matches kl kr l rs") (auto simp: joined_eq)
  qed
  show ?thesis
    unfolding left_join_def map_concat by (induction ls) (simp_all add: one)
qed

lemma fst_set_left_join: "fst ` set (left_join kl kr ls rs) = set ls"
proof
  show "fst ` set (left_join kl kr ls rs) \<subseteq> set ls"
    by (auto simp: left_join_def dest: fst_joined)
  show "set ls \<subseteq> fst ` set (left_join kl kr ls rs)"
  proof
    fix l assume l: "l \<in> set ls"
    obtain p where p: "p \<in> set (joined kl kr rs l)"
      using joined_nonempty [of kl kr rs l] by (cases "joined kl kr rs l") auto
    with l have "p \<in> set (left_join kl kr ls rs)" by (auto simp: left_join_def)
    moreover from p have "fst p = l" by (rule fst_joined)
    ultimately show "l \<in> fst ` set (left_join kl kr ls rs)" by force
  qed
qed

lemma mset_joined:
  assumes "mset rs = mset rs'"
  shows "mset (joined kl kr rs l) = mset (joined kl kr rs' l)"
proof -
  have m: "mset (matches kl kr l rs) = mset (matches kl kr l rs')"
    using assms by (simp add: matches_def mset_filter)
  then have "matches kl kr l rs = [] \<longleftrightarrow> matches kl kr l rs' = []"
    by (metis mset_zero_iff)
  with m show ?thesis by (simp add: joined_eq)
qed

lemma mset_left_join:
  assumes "mset ls = mset ls'" and "mset rs = mset rs'"
  shows "mset (left_join kl kr ls rs) = mset (left_join kl kr ls' rs')"
proof -
  have "mset (left_join kl kr ls rs) = (\<Sum>l\<in>#mset ls. mset (joined kl kr rs l))"
    by (simp add: left_join_def mset_concat comp_def flip: sum_mset_sum_list)
  also have "\<dots> = (\<Sum>l\<in>#mset ls'. mset (joined kl kr rs' l))"
    using assms(1) mset_joined [OF assms(2)] by (metis (no_types, lifting) image_mset_cong)
  also have "\<dots> = mset (left_join kl kr ls' rs')"
    by (simp add: left_join_def mset_concat comp_def flip: sum_mset_sum_list)
  finally show ?thesis .
qed

lemma length_df_enriched:
  "length (df_enriched s c) = length (left_join f_country_code c_country_code s c)"
  by (simp add: df_enriched_def broadcast_def)

lemma length_sales_fact:
  "length (sales_fact ds du) = length (left_join s_userId u_userId ds du)"
  by (simp add: sales_fact_def)

lemma unmatched_in_left_join:
  assumes "l \<in> set ls" and "matches kl kr l rs = []"
  shows "(l, None) \<in> set (left_join kl kr ls rs)"
  using assms by (auto simp: left_join_def joined_eq)

lemma matches_empty_iff:
  "matches kl kr l rs = [] \<longleftrightarrow> (kl l = None \<or> kl l \<notin> kr ` set rs)"
proof (cases "kl l")
  case None
  then show ?thesis by (simp add: matches_def)
next
  case (Some k)
  have "key_eq (Some k) x \<longleftrightarrow> x = Some k" for x
    by (cases x) auto
  with Some show ?thesis
    by (auto simp: matches_def filter_empty_conv image_iff)
qed

text \<open>The columns a \<open>select\<close> keeps from the left table come through a join unchanged.\<close>

lemma enriched_projection:
  "(\<lambda>e. (e_sale_id e, e_amount e)) ` set (df_enriched s c) =
   (\<lambda>f. (f_sale_id f, f_amount f)) ` set s"
proof -
  have "(\<lambda>e. (e_sale_id e, e_amount e)) ` set (df_enriched s c) =
        ((\<lambda>f. (f_sale_id f, f_amount f)) \<circ> fst) ` set (left_join f_country_code c_country_code s c)"
    by (simp add: df_enriched_def broadcast_def image_image select_enriched_def)
  also have "\<dots> = (\<lambda>f. (f_sale_id f, f_amount f)) ` set s"
    by (simp only: image_comp [symmetric] fst_set_left_join)
  finally show ?thesis .
qed

lemma enriched_projection_distinct:
  assumes "distinct (map c_country_code c)"
  shows "map (\<lambda>e. (e_sale_id e, e_amount e)) (df_enriched s c) =
         map (\<lambda>f. (f_sale_id f, f_amount f)) s"
proof -
  have "map (\<lambda>e. (e_sale_id e, e_amount e)) (df_enriched s c) =
        map (\<lambda>f. (f_sale_id f, f_amount f)) (map fst (left_join f_country_code c_country_code s c))"
    by (simp add: df_enriched_def broadcast_def select_enriched_def comp_def)
  with assms show ?thesis
    by (simp only: map_fst_left_join_distinct)
qed

lemma fact_projection:
  "(\<lambda>f. (f_sale_id f, f_amount f)) ` set (sales_fact ds du) =
   (\<lambda>s. (s_sale_id s, spark_round 2 (s_amount s))) ` set ds"
proof -
  have "(\<lambda>f. (f_sale_id f, f_amount f)) ` set (sales_fact ds du) =
        ((\<lambda>s. (s_sale_id s, spark_round 2 (s_amount s))) \<circ> fst) ` set (left_join s_userId u_userId ds du)"
    by (simp add: sales_fact_def image_image select_fact_def with_rounded_amount_def)
  also have "\<dots> = (\<lambda>s. (s_sale_id s, spark_round 2 (s_amount s))) ` set ds"
    by (simp only: image_comp [symmetric] fst_set_left_join)
  finally show ?thesis .
qed

text \<open>Neither join depends on the order in which the engine holds its two tables.\<close>

lemma mset_sales_fact:
  "mset ds = mset ds' \<Longrightarrow> mset du = mset du' \<Longrightarrow>
   mset (sales_fact ds du) = mset (sales_fact ds' du')"
  unfolding sales_fact_def mset_map by (simp add: mset_left_join [of ds ds' du du'])

lemma mset_df_enriched:
  "mset s = mset s' \<Longrightarrow> mset c = mset c' \<Longrightarrow>
   mset (df_enriched s c) = mset (df_enriched s' c')"
  unfolding df_enriched_def broadcast_def mset_map by (simp add: mset_left_join [of s s' c c'])

section \<open>Properties of the Python and engine primitives\<close>

lemma map_err_Inr_iff:
  "map_err f xs = Inr ys \<longleftrightarrow> list_all2 (\<lambda>x y. f x = Inr y) xs ys"
proof (induction xs arbitrary: ys)
  case Nil
  then show ?case by auto
next
  case (Cons x xs)
  then show ?case by (auto simp: list_all2_Cons1)
qed

lemma map_err_length: "map_err f xs = Inr ys \<Longrightarrow> length ys = length xs"
  by (simp add: map_err_Inr_iff list_all2_lengthD)

lemma map_err_set:
  assumes "map_err f xs = Inr ys"
  shows "\<forall>y\<in>set ys. \<exists>x\<in>set xs. f x = Inr y" and "\<forall>x\<in>set xs. \<exists>y\<in>set ys. f x = Inr y"
proof -
  from assms have all: "list_all2 (\<lambda>x y. f x = Inr y) xs ys"
    by (simp add: map_err_Inr_iff)
  show "\<forall>y\<in>set ys. \<exists>x\<in>set xs. f x = Inr y"
  proof
    fix y assume "y \<in> set ys"
    then obtain i where i: "i < length ys" "ys ! i = y" by (auto simp: in_set_conv_nth)
    with all have "f (xs ! i) = Inr y" by (auto dest: list_all2_nthD2)
    moreover from i all have "xs ! i \<in> set xs" by (auto dest: list_all2_lengthD)
    ultimately show "\<exists>x\<in>set xs. f x = Inr y" by blast
  qed
  show "\<forall>x\<in>set xs. \<exists>y\<in>set ys. f x = Inr y"
  proof
    fix x assume "x \<in> set xs"
    then obtain i where i: "i < length xs" "xs ! i = x" by (auto simp: in_set_conv_nth)
    with all have "f x = Inr (ys ! i)" by (auto dest: list_all2_nthD)
    moreover from i all have "ys ! i \<in> set ys" by (auto dest: list_all2_lengthD)
    ultimately show "\<exists>y\<in>set ys. f x = Inr y" by blast
  qed
qed

lemma str_upper_single: "str_upper ucd [c] = upper_cp ucd c"
  by (simp add: str_upper_def)

text \<open>
  \<open>str_nat\<close> writes the decimal numeral of a number, and no other string is one. So
  \<^verbatim>\<open>f"{x}"\<close> gives the string form and \<^verbatim>\<open>float(x)\<close> the cast.
\<close>

lemma nat_of_digits_snoc: "nat_of_digits (s @ [d]) = 10 * nat_of_digits s + (d - 48)"
  by (simp add: nat_of_digits_def)

lemma str_nat_nonempty: "str_nat n \<noteq> []"
  by (subst str_nat.simps) simp

lemma str_nat_decimal: "decimal_numeral (str_nat n) n"
proof (induction n rule: str_nat.induct)
  case (1 n)
  show ?case
  proof (cases "n < 10")
    case True
    then show ?thesis
      by (simp add: str_nat.simps [of n] decimal_numeral_def nat_of_digits_def)
  next
    case False
    with 1 have ih: "decimal_numeral (str_nat (n div 10)) (n div 10)" by simp
    from False have pos: "0 < n div 10" by simp
    have "hd (str_nat (n div 10)) \<noteq> 48"
    proof
      assume z: "hd (str_nat (n div 10)) = 48"
      with ih have "length (str_nat (n div 10)) = 1" by (simp add: decimal_numeral_def)
      with z have "str_nat (n div 10) = [48]"
        by (cases "str_nat (n div 10)") auto
      with ih have "n div 10 = 0" by (simp add: decimal_numeral_def nat_of_digits_def)
      with pos show False by simp
    qed
    with ih False show ?thesis
      by (simp add: str_nat.simps [of n] decimal_numeral_def nat_of_digits_snoc
          str_nat_nonempty)
  qed
qed

lemma decimal_numeral_unique: "decimal_numeral s n \<Longrightarrow> s = str_nat n"
proof (induction s arbitrary: n rule: rev_induct)
  case Nil
  then show ?case by (simp add: decimal_numeral_def)
next
  case (snoc d s)
  from snoc.prems have d: "48 \<le> d" "d \<le> 57" and n: "n = 10 * nat_of_digits s + (d - 48)"
    by (simp_all add: decimal_numeral_def nat_of_digits_snoc)
  show ?case
  proof (cases "s = []")
    case True
    with n d have "n < 10" "d = 48 + n" by (simp_all add: nat_of_digits_def)
    with True show ?thesis by (simp add: str_nat.simps [of n])
  next
    case False
    with snoc.prems have hd: "hd s \<noteq> 48" and digits: "list_all (\<lambda>d. 48 \<le> d \<and> d \<le> 57) s"
      by (simp_all add: decimal_numeral_def)
    from False hd digits have "decimal_numeral s (nat_of_digits s)"
      by (simp add: decimal_numeral_def)
    then have s: "s = str_nat (nat_of_digits s)" by (rule snoc.IH)
    have "nat_of_digits s \<noteq> 0"
    proof
      assume "nat_of_digits s = 0"
      with s have "s = [48]" by (simp add: str_nat.simps [of 0])
      with hd show False by simp
    qed
    moreover define e where "e = d - 48"
    ultimately have "e < 10" "d = 48 + e" "n = 10 * nat_of_digits s + e" "0 < nat_of_digits s"
      using n d by simp_all
    then have "\<not> n < 10" "n div 10 = nat_of_digits s" "48 + n mod 10 = d"
      by simp_all
    with s show ?thesis by (simp add: str_nat.simps [of n])
  qed
qed

lemma py_format_string_form: "py_format v = Inr s \<Longrightarrow> string_form v s"
  by (cases v) (auto simp: str_int_def str_nat_decimal str_nat_nonempty)

lemma py_float_cast: "py_float v = Inr x \<Longrightarrow> float_cast v x"
  by (cases v) (auto split: if_splits)

text \<open>
  \<open>half_up 2\<close> rounds to 2 decimal places, and it is the only function that does.
\<close>

lemma floor_rat_numeral [simp]:
  "\<lfloor>(numeral a :: rat) / numeral b\<rfloor> = numeral a div numeral b"
  by (metis floor_divide_of_int_eq of_int_numeral)

lemma whole_hundredths_iff:
  fixes r :: rat
  shows "of_int \<lfloor>r * 100\<rfloor> = r * 100 \<longleftrightarrow> (\<exists>k::int. r = of_int k / 100)"
proof
  assume "of_int \<lfloor>r * 100\<rfloor> = r * 100"
  then have "r = of_int \<lfloor>r * 100\<rfloor> / 100" by linarith
  then show "\<exists>k::int. r = of_int k / 100" ..
next
  assume "\<exists>k::int. r = of_int k / 100"
  then obtain k :: int where "r = of_int k / 100" ..
  then have "r * 100 = of_int k" by simp
  then show "of_int \<lfloor>r * 100\<rfloor> = r * 100" by (simp only: floor_of_int)
qed

lemma rounded_2dp_alt:
  "rounded_2dp q r \<longleftrightarrow>
     (\<exists>k::int. r = of_int k / 100) \<and> \<bar>r - q\<bar> \<le> 1 / 200 \<and>
     (\<bar>r - q\<bar> = 1 / 200 \<longrightarrow> \<bar>q\<bar> < \<bar>r\<bar>)"
  by (simp only: rounded_2dp_def whole_hundredths_iff)

lemma half_up_nonneg:
  fixes q :: rat
  assumes "0 \<le> q"
  shows "rounded_2dp q (of_int \<lfloor>q * 100 + 1 / 2\<rfloor> / 100)"
proof -
  define m :: rat where "m = of_int \<lfloor>q * 100 + 1 / 2\<rfloor>"
  have lo: "m \<le> q * 100 + 1 / 2"
    unfolding m_def by (rule of_int_floor_le)
  have hi: "q * 100 + 1 / 2 < m + 1"
    unfolding m_def using floor_correct [of "q * 100 + 1 / 2"] by simp
  have "0 \<le> \<lfloor>q * 100 + 1 / 2\<rfloor>" using assms by simp
  then have m0: "0 \<le> m" unfolding m_def by simp
  from lo have up: "m / 100 - q \<le> 1 / 200" by linarith
  from hi have down: "- (1 / 200) < m / 100 - q" by linarith
  from up down have near: "\<bar>m / 100 - q\<bar> \<le> 1 / 200" by linarith
  have tie: "\<bar>q\<bar> < \<bar>m / 100\<bar>" if "\<bar>m / 100 - q\<bar> = 1 / 200"
  proof -
    from that down have "m / 100 - q = 1 / 200" by linarith
    with assms m0 show ?thesis by linarith
  qed
  have "\<exists>k::int. m / 100 = of_int k / 100"
    unfolding m_def by blast
  with near tie show ?thesis unfolding rounded_2dp_alt m_def by blast
qed

lemma rounded_2dp_minus: "rounded_2dp q r \<Longrightarrow> rounded_2dp (- q) (- r)"
  unfolding rounded_2dp_alt
  apply (intro conjI)
    apply (metis minus_divide_left of_int_minus)
   apply (simp add: abs_minus_commute)
  apply (simp add: abs_minus_commute)
  done

lemma half_up_rounded: "rounded_2dp q (half_up 2 q)"
proof (cases "q < 0")
  case True
  then have "rounded_2dp (- q) (of_int \<lfloor>(- q) * 100 + 1 / 2\<rfloor> / 100)"
    by (intro half_up_nonneg) simp
  from rounded_2dp_minus [OF this] True show ?thesis
    by (simp add: half_up_def)
next
  case False
  then have "rounded_2dp q (of_int \<lfloor>q * 100 + 1 / 2\<rfloor> / 100)"
    by (intro half_up_nonneg) simp
  with False show ?thesis by (simp add: half_up_def)
qed

lemma rounded_2dp_unique:
  assumes "rounded_2dp q r" and "rounded_2dp q r'"
  shows "r = r'"
proof -
  from assms obtain k k' :: int where k: "r = of_int k / 100" "r' = of_int k' / 100"
    unfolding rounded_2dp_alt by blast
  from assms have near: "\<bar>r - q\<bar> \<le> 1 / 200" "\<bar>r' - q\<bar> \<le> 1 / 200"
    and tie: "\<bar>r - q\<bar> = 1 / 200 \<Longrightarrow> \<bar>q\<bar> < \<bar>r\<bar>" "\<bar>r' - q\<bar> = 1 / 200 \<Longrightarrow> \<bar>q\<bar> < \<bar>r'\<bar>"
    unfolding rounded_2dp_alt by blast+
  have step: "r = r'" if le: "k \<le> k'" and k: "r = of_int k / 100" "r' = of_int k' / 100"
    and near: "\<bar>r - q\<bar> \<le> 1 / 200" "\<bar>r' - q\<bar> \<le> 1 / 200"
    and tie: "\<bar>r - q\<bar> = 1 / 200 \<Longrightarrow> \<bar>q\<bar> < \<bar>r\<bar>" "\<bar>r' - q\<bar> = 1 / 200 \<Longrightarrow> \<bar>q\<bar> < \<bar>r'\<bar>"
    for r r' :: rat and k k' :: int
  proof (rule ccontr)
    assume "r \<noteq> r'"
    with k le have "k < k'" by (cases "k = k'") auto
    then have "k + 1 \<le> k'" by simp
    then have "(of_int k :: rat) + 1 \<le> of_int k'"
      by (metis of_int_1 of_int_add of_int_le_iff)
    with k have gap: "r + 1 / 100 \<le> r'" by linarith
    with near have r: "r - q = - (1 / 200)" and r': "r' - q = 1 / 200" by linarith+
    from r have "\<bar>r - q\<bar> = 1 / 200" by simp
    then have t: "\<bar>q\<bar> < \<bar>r\<bar>" by (rule tie)
    from r' have "\<bar>r' - q\<bar> = 1 / 200" by simp
    then have t': "\<bar>q\<bar> < \<bar>r'\<bar>" by (rule tie)
    from r r' have rr: "r' = r + 1 / 100" by linarith
    show False
    proof (cases "0 \<le> k")
      case True
      then have "0 \<le> r" using k by simp
      with r t show False by linarith
    next
      case False
      then have "k + 1 \<le> 0" by simp
      then have "(of_int k :: rat) + 1 \<le> 0"
        by (metis of_int_0 of_int_1 of_int_add of_int_le_iff)
      with k rr have "r' \<le> 0" by linarith
      with r' t' show False by linarith
    qed
  qed
  show ?thesis
  proof (cases "k \<le> k'")
    case True
    from step [OF True k near tie] show ?thesis .
  next
    case False
    then have "k' \<le> k" by simp
    from step [OF this k(2,1) near(2,1) tie(2,1)] show ?thesis by simp
  qed
qed

lemma rounded_2dp_iff: "rounded_2dp q r \<longleftrightarrow> r = half_up 2 q"
  using rounded_2dp_unique half_up_rounded by blast

section \<open>Properties of the loader and the builder\<close>

lemma countries_rows_step:
  assumes "is_dict c"
  shows "countries_rows (c # cs) =
     (if has_code c
      then and_then (country_dict_of c) (\<lambda>d. and_then (countries_rows cs) (\<lambda>ds. Inr (d # ds)))
      else countries_rows cs)"
proof -
  from assms obtain kvs where "c = JObj kvs" by (cases c) auto
  then show ?thesis
    by (simp add: has_code_def split: option.splits)
qed

lemma countries_rows_dicts:
  "list_all is_dict cs \<Longrightarrow>
   countries_rows cs = map_err country_dict_of (filter has_code cs)"
proof (induction cs)
  case Nil
  then show ?case by simp
next
  case (Cons c cs)
  then have "is_dict c" and "list_all is_dict cs" by simp_all
  with Cons.IH show ?case
    by (simp only: countries_rows_step) simp
qed

lemma string_cell_truthy:
  assumes "string_cell v = Inr cell" and "truthy v"
  shows "\<exists>s. v = JStr s \<and> s \<noteq> [] \<and> cell = Some s"
  using assms by (cases v) auto

lemma country_dict_code:
  assumes "country_dict_of c = Inr d"
  shows "dict_get c (lit ''cca2'') = Inr (cd_country_code d)"
proof -
  from assms obtain code name common region where
    "dict_get c (lit ''cca2'') = Inr code"
    "d = \<lparr>cd_country_code = code, cd_country_name = common, cd_region = region\<rparr>"
    by (auto simp: country_dict_of_def)
  then show ?thesis by simp
qed

lemma country_row_code:
  assumes "country_row_of d = Inr r"
  shows "string_cell (cd_country_code d) = Inr (c_country_code r)"
proof -
  from assms obtain code name region where
    "string_cell (cd_country_code d) = Inr code"
    "r = \<lparr>c_country_code = code, c_country_name = name, c_region = region\<rparr>"
    by (auto simp: country_row_of_def)
  then show ?thesis by simp
qed

lemma get_countries_df_Inr:
  assumes "get_countries_df (Inr (JArr cs)) = Inr tbl"
  obtains rows where "countries_rows cs = Inr rows" and "map_err country_row_of rows = Inr tbl"
  using assms
  by (auto simp: get_countries_df_def createDataFrame_countries_def split: if_splits)

lemma sale_dict_fields:
  assumes "sale_dict_of cart = Inr d"
  shows "\<exists>cid total.
        py_getitem cart (lit ''id'') = Inr cid \<and> py_format cid = Inr (sd_sale_id d) \<and>
        py_getitem cart (lit ''userId'') = Inr (sd_userId d) \<and>
        py_getitem cart (lit ''total'') = Inr total \<and> py_float total = Inr (sd_amount d)"
proof -
  from assms obtain cid sale_id uid total amount where
    "py_getitem cart (lit ''id'') = Inr cid" "py_format cid = Inr sale_id"
    "py_getitem cart (lit ''userId'') = Inr uid"
    "py_getitem cart (lit ''total'') = Inr total" "py_float total = Inr amount"
    "d = \<lparr>sd_sale_id = sale_id, sd_userId = uid, sd_amount = amount\<rparr>"
    by (auto simp: sale_dict_of_def)
  then show ?thesis by simp
qed

lemma sale_dict_forms:
  assumes "sale_dict_of cart = Inr d"
  shows "\<exists>cid total.
        py_getitem cart (lit ''id'') = Inr cid \<and> string_form cid (sd_sale_id d) \<and>
        py_getitem cart (lit ''userId'') = Inr (sd_userId d) \<and>
        py_getitem cart (lit ''total'') = Inr total \<and> float_cast total (sd_amount d)"
  using sale_dict_fields [OF assms] py_format_string_form py_float_cast by blast

lemma sale_row_fields:
  assumes "sale_row_of d = Inr s"
  shows "s_sale_id s = sd_sale_id d" and "s_amount s = sd_amount d"
  using assms by (auto simp: sale_row_of_def)

lemma carts_df_Inr:
  assumes "carts_df max_pages carts_api = Inr ds"
  obtains carts rows where "fetch_all carts_api (lit ''carts'') max_pages = Inr carts"
    and "sales_rows carts = Inr rows" and "map_err sale_row_of rows = Inr ds"
  using assms
  by (auto simp: carts_df_def createDataFrame_sales_def split: if_splits)

lemma get_sales_df_Inr:
  assumes "get_sales_df ucd max_pages users_api carts_api = Inr sf"
  obtains du ds where "users_df ucd max_pages users_api = Inr du"
    and "carts_df max_pages carts_api = Inr ds" and "sf = sales_fact ds du"
  using assms by (auto simp: get_sales_df_def)

lemma pipeline_Inr:
  assumes "pipeline ucd countries_resp users_api carts_api = Inr out"
  obtains dc sf where "get_countries_df countries_resp = Inr dc"
    and "get_sales_df ucd 20 users_api carts_api = Inr sf" and "out = df_enriched sf dc"
  using assms by (auto simp: pipeline_def)

text \<open>The sequential evaluation is one of the runs, and so is every rearrangement of its output.\<close>

lemma pipeline_is_run:
  assumes "pipeline ucd countries_resp users_api carts_api = Inr out"
  shows "pipeline_run ucd countries_resp users_api carts_api out"
proof -
  from assms obtain dc sf where dc: "get_countries_df countries_resp = Inr dc"
    and "get_sales_df ucd 20 users_api carts_api = Inr sf" and out: "out = df_enriched sf dc"
    by (rule pipeline_Inr)
  then obtain du ds where "users_df ucd 20 users_api = Inr du" "carts_df 20 carts_api = Inr ds"
    "sf = sales_fact ds du"
    by (auto elim: get_sales_df_Inr)
  with dc out show ?thesis
    by (auto intro: pipeline_run.run)
qed

lemma pipeline_run_perm:
  assumes "pipeline_run ucd countries_resp users_api carts_api out" and "mset out' = mset out"
  shows "pipeline_run ucd countries_resp users_api carts_api out'"
  using assms(1)
proof (cases rule: pipeline_run.cases)
  case (run tc dc tu du ts dk ds)
  from run(1-7) show ?thesis
    by (rule pipeline_run.run) (simp add: assms(2) run(8))
qed

section \<open>Evaluating the examples\<close>

lemmas python_defs =
  lit_def py_or_def str_upper_def upper_cp_def ucd_latin1_def str_int_def str_nat.simps

lemmas engine_defs =
  all_null_def left_join_def joined_def matches_def half_up_def broadcast_def

lemmas loader_defs =
  country_dict_of_def country_row_of_def createDataFrame_countries_def get_countries_df_def

lemmas builder_defs =
  fetch_all_def upt_rec country_code_of_def user_dict_of_def users_rows_def user_row_of_def
  createDataFrame_users_def sale_dict_of_def sales_rows_def sale_row_of_def
  createDataFrame_sales_def select_fact_def with_rounded_amount_def sales_fact_def
  users_df_def carts_df_def get_sales_df_def

lemmas enrichment_defs = select_enriched_def df_enriched_def pipeline_def

lemmas example_defs =
  json_country_def json_user_def json_cart_def one_page_def same_page_def ex_fact_def
  ex_country_def ex_enriched_def

lemma demo_carts:
  "fetch_all (one_page ''carts'' [json_cart 1 7 (JFloat (Finite (12345 / 1000)))]) (lit ''carts'') 20
     = Inr [json_cart 1 7 (JFloat (Finite (12345 / 1000)))]"
  by (simp add: python_defs builder_defs example_defs)

lemma demo_sales:
  "get_sales_df ucd 20 (one_page ''users'' [json_user 7 (JStr (lit ''US''))])
     (one_page ''carts'' [json_cart 1 7 (JFloat (Finite (12345 / 1000)))])
   = Inr [ex_fact ''1'' (Some ''US'') (1235 / 100)]"
  by (simp add: lit_def py_or_def str_upper_def upper_cp_def str_int_def str_nat.simps
      engine_defs builder_defs example_defs)

lemma demo_pipeline:
  "pipeline ucd (Inr (JArr [json_country ''US'' ''United States'' ''Americas'']))
     (one_page ''users'' [json_user 7 (JStr (lit ''US''))])
     (one_page ''carts'' [json_cart 1 7 (JFloat (Finite (12345 / 1000)))])
   = Inr [ex_enriched ''1'' (1235 / 100) (Some ''United States'') (Some ''Americas'')]"
  unfolding pipeline_def demo_sales
  by (simp add: lit_def engine_defs loader_defs select_enriched_def df_enriched_def example_defs)

lemma demo_two_sales:
  "pipeline ucd
     (Inr (JArr [json_country ''US'' ''United States'' ''Americas'',
                 json_country ''FR'' ''France'' ''Europe'']))
     (one_page ''users'' [json_user 7 (JStr (lit ''US'')), json_user 8 (JStr (lit ''france''))])
     (one_page ''carts'' [json_cart 1 7 (JInt 10), json_cart 2 8 (JInt 5)])
   = Inr [ex_enriched ''1'' 10 (Some ''United States'') (Some ''Americas''),
          ex_enriched ''2'' 5 (Some ''France'') (Some ''Europe'')]"
  by (simp add: lit_def py_or_def str_upper_def upper_cp_def str_int_def str_nat.simps
      engine_defs loader_defs builder_defs enrichment_defs example_defs)

section \<open>The enrichment join keeps every fact row\<close>

text \<open>
  Claim C1, amended. For every sales fact table and every country table, the enriched
  table has at least as many rows as the sales fact table, and exactly as many when no
  two rows of the country table share a \<open>country_code\<close>. Every fact row whose
  \<open>country_code\<close> is null or matches no row of the country table appears in the output
  with \<open>country_name\<close> and \<open>region\<close> null.
\<close>

theorem enriched_row_count:
  "length df_sales \<le> length (df_enriched df_sales df_countries) \<and>
   (distinct (map c_country_code df_countries) \<longrightarrow>
      length (df_enriched df_sales df_countries) = length df_sales) \<and>
   (\<forall>s\<in>set df_sales.
      f_country_code s = None \<or> f_country_code s \<notin> c_country_code ` set df_countries \<longrightarrow>
      \<lparr>e_sale_id = f_sale_id s, e_amount = f_amount s,
       e_country_name = None, e_region = None\<rparr> \<in> set (df_enriched df_sales df_countries))"
proof (intro conjI impI ballI)
  show "length df_sales \<le> length (df_enriched df_sales df_countries)"
    by (simp add: length_df_enriched length_left_join_ge)
  show "length (df_enriched df_sales df_countries) = length df_sales"
    if "distinct (map c_country_code df_countries)"
    using that by (simp add: length_df_enriched length_left_join_distinct)
  fix s
  assume s: "s \<in> set df_sales"
    and "f_country_code s = None \<or> f_country_code s \<notin> c_country_code ` set df_countries"
  then have "matches f_country_code c_country_code s df_countries = []"
    by (simp add: matches_empty_iff)
  with s have "(s, None) \<in> set (left_join f_country_code c_country_code df_sales df_countries)"
    by (rule unmatched_in_left_join)
  then have "select_enriched (s, None) \<in> set (df_enriched df_sales df_countries)"
    by (simp add: df_enriched_def broadcast_def)
  then show "\<lparr>e_sale_id = f_sale_id s, e_amount = f_amount s,
       e_country_name = None, e_region = None\<rparr> \<in> set (df_enriched df_sales df_countries)"
    by (simp add: select_enriched_def)
qed

text \<open>
  Two countries, three sales: one matches, one has a code no country has, one has no
  code. Three rows come out, the last two with nulls.
\<close>

theorem enriched_row_count_witness:
  "distinct (map c_country_code
     [ex_country ''US'' ''United States'' ''Americas'', ex_country ''FR'' ''France'' ''Europe''])
   \<and> length (df_enriched
     [ex_fact ''1'' (Some ''US'') 10, ex_fact ''2'' (Some ''ZZ'') 5, ex_fact ''3'' None 7]
     [ex_country ''US'' ''United States'' ''Americas'', ex_country ''FR'' ''France'' ''Europe'']) = 3
   \<and> ex_enriched ''2'' 5 None None \<in> set (df_enriched
     [ex_fact ''1'' (Some ''US'') 10, ex_fact ''2'' (Some ''ZZ'') 5, ex_fact ''3'' None 7]
     [ex_country ''US'' ''United States'' ''Americas'', ex_country ''FR'' ''France'' ''Europe''])
   \<and> ex_enriched ''3'' 7 None None \<in> set (df_enriched
     [ex_fact ''1'' (Some ''US'') 10, ex_fact ''2'' (Some ''ZZ'') 5, ex_fact ''3'' None 7]
     [ex_country ''US'' ''United States'' ''Americas'', ex_country ''FR'' ''France'' ''Europe''])"
  using enriched_row_count [of
      "[ex_fact ''1'' (Some ''US'') 10, ex_fact ''2'' (Some ''ZZ'') 5, ex_fact ''3'' None 7]"
      "[ex_country ''US'' ''United States'' ''Americas'', ex_country ''FR'' ''France'' ''Europe'']"]
  by (simp add: python_defs example_defs)

text \<open>
  Claim C1 as stated fails on a country table that lists the code \<open>US\<close> twice: one
  sale becomes two enriched rows.
\<close>

theorem enriched_row_count_counterexample:
  "length (df_enriched [ex_fact ''1'' (Some ''US'') 10]
     [ex_country ''US'' ''United States'' ''Americas'', ex_country ''US'' ''USA'' ''Americas'']) = 2
   \<and> length [ex_fact ''1'' (Some ''US'') 10] = 1"
  by (simp add: python_defs engine_defs enrichment_defs example_defs)

section \<open>The sentinel country code\<close>

text \<open>
  Claim C2, amended. For every user record whose address has a \<^verbatim>\<open>country\<close> field that
  is the empty string or \<open>null\<close>, the derived \<open>country_code\<close> is the sentinel \<open>XX\<close>.
\<close>

theorem missing_country_sentinel:
  assumes "py_getitem u (lit ''address'') = Inr address"
      and "py_getitem address (lit ''country'') = Inr country"
      and "country = JStr [] \<or> country = JNull"
  shows "country_code_of ucd u = Inr (lit ''XX'')"
  using assms by (auto simp: country_code_of_def py_or_def str_upper_def upper_cp_def lit_def)

text \<open>A user with country \<open>null\<close> and a user with country \<open>""\<close>.\<close>

theorem missing_country_sentinel_witness:
  "country_code_of ucd_latin1 (json_user 7 JNull) = Inr (lit ''XX'') \<and>
   country_code_of ucd_latin1 (json_user 7 (JStr [])) = Inr (lit ''XX'')"
  using
    missing_country_sentinel [of "json_user 7 JNull" "JObj [(lit ''country'', JNull)]"
      JNull ucd_latin1]
    missing_country_sentinel [of "json_user 7 (JStr [])" "JObj [(lit ''country'', JStr [])]"
      "JStr []" ucd_latin1]
  by (simp add: python_defs example_defs)

text \<open>
  Claim C2 as stated fails on a user whose address has no \<^verbatim>\<open>country\<close> key: the
  subscript raises \<open>KeyError\<close> and no code is derived.
\<close>

theorem missing_country_counterexample:
  "country_code_of ucd_latin1 (JObj [(lit ''id'', JInt 7), (lit ''address'', JObj [])])
     = Inl KeyError"
  by (simp add: python_defs builder_defs)

section \<open>The sales fact table keeps every cart\<close>

text \<open>
  Claim C3, amended. For every list of fetched cart records and every list of fetched
  user records, the sales fact table has at least as many rows as there are fetched
  carts, whether or not a cart's user is among the users, and exactly as many when no
  two rows of the users table share a \<open>userId\<close>.
\<close>

theorem sales_fact_row_count:
  assumes "fetch_all carts_api (lit ''carts'') max_pages = Inr carts"
      and "users_df ucd max_pages users_api = Inr df_users"
      and "get_sales_df ucd max_pages users_api carts_api = Inr sf"
  shows "length carts \<le> length sf \<and>
         (distinct (map u_userId df_users) \<longrightarrow> length sf = length carts)"
proof -
  from assms(3) obtain du ds where du: "users_df ucd max_pages users_api = Inr du"
    and ds: "carts_df max_pages carts_api = Inr ds" and sf: "sf = sales_fact ds du"
    by (rule get_sales_df_Inr)
  from du assms(2) have [simp]: "du = df_users" by simp
  from ds obtain carts' rows where "fetch_all carts_api (lit ''carts'') max_pages = Inr carts'"
    and "sales_rows carts' = Inr rows" and "map_err sale_row_of rows = Inr ds"
    by (rule carts_df_Inr)
  with assms(1) have "length ds = length carts"
    by (simp add: sales_rows_def map_err_length)
  with sf show ?thesis
    by (auto simp: length_sales_fact length_left_join_distinct
        intro: order_trans [OF _ length_left_join_ge])
qed

text \<open>
  Two users, two carts; the second cart belongs to a user that was not fetched and stays
  in the table with a null \<open>country_code\<close>.
\<close>

theorem sales_fact_row_count_witness:
  "fetch_all (one_page ''carts'' [json_cart 1 7 (JInt 10), json_cart 2 9 (JInt 5)])
     (lit ''carts'') 20
     = Inr [json_cart 1 7 (JInt 10), json_cart 2 9 (JInt 5)] \<and>
   users_df ucd_latin1 20 (one_page ''users'' [json_user 7 (JStr (lit ''US'')), json_user 8 JNull])
     = Inr [\<lparr>u_userId = Some 7, u_country_code = lit ''US''\<rparr>,
            \<lparr>u_userId = Some 8, u_country_code = lit ''XX''\<rparr>] \<and>
   get_sales_df ucd_latin1 20
     (one_page ''users'' [json_user 7 (JStr (lit ''US'')), json_user 8 JNull])
     (one_page ''carts'' [json_cart 1 7 (JInt 10), json_cart 2 9 (JInt 5)])
     = Inr [ex_fact ''1'' (Some ''US'') 10, ex_fact ''2'' None 5]"
proof -
  have carts: "fetch_all (one_page ''carts'' [json_cart 1 7 (JInt 10), json_cart 2 9 (JInt 5)])
     (lit ''carts'') 20
     = Inr [json_cart 1 7 (JInt 10), json_cart 2 9 (JInt 5)]"
    by (simp add: python_defs builder_defs example_defs)
  have users: "users_df ucd_latin1 20
     (one_page ''users'' [json_user 7 (JStr (lit ''US'')), json_user 8 JNull])
     = Inr [\<lparr>u_userId = Some 7, u_country_code = lit ''US''\<rparr>,
            \<lparr>u_userId = Some 8, u_country_code = lit ''XX''\<rparr>]"
    by (simp add: python_defs engine_defs builder_defs example_defs)
  have sales: "get_sales_df ucd_latin1 20
     (one_page ''users'' [json_user 7 (JStr (lit ''US'')), json_user 8 JNull])
     (one_page ''carts'' [json_cart 1 7 (JInt 10), json_cart 2 9 (JInt 5)])
     = Inr [ex_fact ''1'' (Some ''US'') 10, ex_fact ''2'' None 5]"
    by (simp add: python_defs engine_defs builder_defs example_defs)
  from sales_fact_row_count [OF carts users sales] carts users sales
  show ?thesis by simp
qed

text \<open>
  Claim C3 as stated fails when the users endpoint serves the same page twice: the one
  fetched cart becomes two fact rows.
\<close>

theorem sales_fact_row_count_counterexample:
  "fetch_all (one_page ''carts'' [json_cart 1 7 (JInt 10)]) (lit ''carts'') 2
     = Inr [json_cart 1 7 (JInt 10)] \<and>
   get_sales_df ucd_latin1 2 (same_page ''users'' [json_user 7 (JStr (lit ''US''))])
     (one_page ''carts'' [json_cart 1 7 (JInt 10)])
     = Inr [ex_fact ''1'' (Some ''US'') 10, ex_fact ''1'' (Some ''US'') 10]"
  by (simp add: python_defs engine_defs builder_defs example_defs)

section \<open>The country table holds the entries with a code\<close>

text \<open>
  Claim C4, amended. For every countries response that is a list of country objects, the
  loader does exactly what it does on the response without the entries whose
  \<^verbatim>\<open>cca2\<close> is absent, \<open>null\<close> or empty: they are left out, and none of them can
  raise an error. When the loader returns a table, its rows are, in order, the other
  entries, and the \<open>country_code\<close> of each row is that entry's \<^verbatim>\<open>cca2\<close>, a
  non-empty string of whatever length.
\<close>

theorem countries_table_codes:
  assumes "list_all is_dict cs"
  shows "get_countries_df (Inr (JArr cs)) = get_countries_df (Inr (JArr (filter has_code cs))) \<and>
    (\<forall>tbl. get_countries_df (Inr (JArr cs)) = Inr tbl \<longrightarrow>
       length tbl = length (filter has_code cs) \<and>
       (\<forall>i<length tbl. \<exists>s. c_country_code (tbl ! i) = Some s \<and> s \<noteq> [] \<and>
            dict_get (filter has_code cs ! i) (lit ''cca2'') = Inr (JStr s)))"
proof (intro conjI allI impI)
  from assms have "list_all is_dict (filter has_code cs)"
    by (simp add: list_all_iff)
  then have "countries_rows (filter has_code cs) = map_err country_dict_of (filter has_code cs)"
    using countries_rows_dicts by fastforce
  with assms
  show "get_countries_df (Inr (JArr cs)) = get_countries_df (Inr (JArr (filter has_code cs)))"
    by (simp add: get_countries_df_def countries_rows_dicts)
next
  fix tbl assume tbl: "get_countries_df (Inr (JArr cs)) = Inr tbl"
  then obtain rows where rows: "countries_rows cs = Inr rows"
    and conv: "map_err country_row_of rows = Inr tbl"
    by (rule get_countries_df_Inr)
  from rows assms
  have dicts: "list_all2 (\<lambda>c d. country_dict_of c = Inr d) (filter has_code cs) rows"
    by (simp add: countries_rows_dicts map_err_Inr_iff)
  from conv have cells: "list_all2 (\<lambda>d r. country_row_of d = Inr r) rows tbl"
    by (simp add: map_err_Inr_iff)
  show "length tbl = length (filter has_code cs)"
    using dicts cells by (simp add: list_all2_lengthD)
  fix i assume i: "i < length tbl"
  let ?c = "filter has_code cs ! i"
  from cells have "length rows = length tbl" by (rule list_all2_lengthD)
  with i have ir: "i < length rows" by simp
  from dicts have "length (filter has_code cs) = length rows" by (rule list_all2_lengthD)
  with ir have ic: "i < length (filter has_code cs)" by simp
  from dicts ir have d: "country_dict_of ?c = Inr (rows ! i)"
    by (rule list_all2_nthD2)
  from cells i have r: "country_row_of (rows ! i) = Inr (tbl ! i)"
    by (rule list_all2_nthD2)
  from ic have "?c \<in> set (filter has_code cs)"
    by (rule nth_mem)
  then have "has_code ?c" by simp
  then obtain v where v: "dict_get ?c (lit ''cca2'') = Inr v" "truthy v"
    by (auto simp: has_code_def split: sum.splits)
  with country_dict_code [OF d] have "cd_country_code (rows ! i) = v" by simp
  with country_row_code [OF r] have "string_cell v = Inr (c_country_code (tbl ! i))" by simp
  from string_cell_truthy [OF this v(2)] v(1)
  show "\<exists>s. c_country_code (tbl ! i) = Some s \<and> s \<noteq> [] \<and>
            dict_get ?c (lit ''cca2'') = Inr (JStr s)" by auto
qed

text \<open>
  A response with the United States, an entry that has neither \<^verbatim>\<open>cca2\<close> nor
  \<^verbatim>\<open>name\<close>, and an entry whose \<^verbatim>\<open>cca2\<close> is empty: the table has the one row.
\<close>

theorem countries_table_codes_witness:
  "list_all is_dict
     [json_country ''US'' ''United States'' ''Americas'',
      JObj [(lit ''region'', JStr (lit ''Oceania''))],
      JObj [(lit ''cca2'', JStr [])]] \<and>
   get_countries_df (Inr (JArr
     [json_country ''US'' ''United States'' ''Americas'',
      JObj [(lit ''region'', JStr (lit ''Oceania''))],
      JObj [(lit ''cca2'', JStr [])]]))
     = Inr [ex_country ''US'' ''United States'' ''Americas'']"
proof -
  have dicts: "list_all is_dict
     [json_country ''US'' ''United States'' ''Americas'',
      JObj [(lit ''region'', JStr (lit ''Oceania''))],
      JObj [(lit ''cca2'', JStr [])]]"
    by (simp add: example_defs)
  from countries_table_codes [OF dicts] dicts show ?thesis
    by (simp add: has_code_def lit_def engine_defs loader_defs example_defs)
qed

text \<open>
  Claim C4 as stated fails on an entry whose \<^verbatim>\<open>cca2\<close> is \<open>USA\<close>: the loader tests
  only that the code is not empty, so the entry is kept and its row has a 3-letter code.
\<close>

theorem countries_table_codes_counterexample:
  "get_countries_df (Inr (JArr [json_country ''USA'' ''United States'' ''Americas'']))
     = Inr [ex_country ''USA'' ''United States'' ''Americas''] \<and>
   length (lit ''USA'') = 3"
  by (simp add: lit_def engine_defs loader_defs example_defs)

section \<open>Amounts are rounded when the fact table is built\<close>

text \<open>
  Claim C5, amended. For every run of the pipeline, every row of the enriched output
  comes from a fetched cart: its \<open>sale_id\<close> is the string form of the cart's id, and
  when the cart's \<open>total_amount\<close> is a finite number its \<open>amount\<close> is that number
  rounded to exactly 2 decimal places, halves away from zero. A \<open>total_amount\<close> that is
  infinite or not a number is the \<open>amount\<close> of the row, unchanged.
\<close>

theorem amounts_rounded:
  assumes "pipeline ucd countries_resp users_api carts_api = Inr out"
      and "fetch_all carts_api (lit ''carts'') 20 = Inr carts"
  shows "\<forall>e\<in>set out. \<exists>cart\<in>set carts. \<exists>cid total total_amount.
           py_getitem cart (lit ''id'') = Inr cid \<and> string_form cid (e_sale_id e) \<and>
           py_getitem cart (lit ''total'') = Inr total \<and> float_cast total total_amount \<and>
           (case total_amount of
              Finite q \<Rightarrow> \<exists>r. e_amount e = Finite r \<and> rounded_2dp q r
            | _ \<Rightarrow> e_amount e = total_amount)"
proof
  fix e assume e: "e \<in> set out"
  from assms(1) obtain dc sf where "get_sales_df ucd 20 users_api carts_api = Inr sf"
    and out: "out = df_enriched sf dc"
    by (rule pipeline_Inr)
  then obtain du ds where ds: "carts_df 20 carts_api = Inr ds" and sf: "sf = sales_fact ds du"
    by (auto elim: get_sales_df_Inr)
  from ds assms(2) obtain rows where rows: "sales_rows carts = Inr rows"
    and tbl: "map_err sale_row_of rows = Inr ds"
    by (auto elim: carts_df_Inr)
  from e out have "(e_sale_id e, e_amount e) \<in> (\<lambda>f. (f_sale_id f, f_amount f)) ` set sf"
    using enriched_projection by blast
  with sf
  have "(e_sale_id e, e_amount e) \<in> (\<lambda>s. (s_sale_id s, spark_round 2 (s_amount s))) ` set ds"
    by (simp only: fact_projection)
  then obtain s where s: "s \<in> set ds" "e_sale_id e = s_sale_id s"
    "e_amount e = spark_round 2 (s_amount s)" by auto
  from map_err_set(1) [OF tbl] s(1) obtain d where d: "d \<in> set rows" "sale_row_of d = Inr s"
    by blast
  from map_err_set(1) [OF rows [unfolded sales_rows_def]] d(1)
  obtain cart where cart: "cart \<in> set carts" "sale_dict_of cart = Inr d"
    by blast
  from s d(2) have e_d: "e_sale_id e = sd_sale_id d" "e_amount e = spark_round 2 (sd_amount d)"
    by (simp_all add: sale_row_fields)
  from sale_dict_forms [OF cart(2)] obtain cid total where forms:
    "py_getitem cart (lit ''id'') = Inr cid" "string_form cid (sd_sale_id d)"
    "py_getitem cart (lit ''total'') = Inr total" "float_cast total (sd_amount d)"
    by blast
  have "case sd_amount d of
          Finite q \<Rightarrow> \<exists>r. e_amount e = Finite r \<and> rounded_2dp q r
        | _ \<Rightarrow> e_amount e = sd_amount d"
    using e_d(2) by (cases "sd_amount d") (simp_all add: half_up_rounded)
  with forms e_d(1)
  have "\<exists>cid total total_amount.
           py_getitem cart (lit ''id'') = Inr cid \<and> string_form cid (e_sale_id e) \<and>
           py_getitem cart (lit ''total'') = Inr total \<and> float_cast total total_amount \<and>
           (case total_amount of
              Finite q \<Rightarrow> \<exists>r. e_amount e = Finite r \<and> rounded_2dp q r
            | _ \<Rightarrow> e_amount e = total_amount)"
    by auto
  with cart(1)
  show "\<exists>cart\<in>set carts. \<exists>cid total total_amount.
           py_getitem cart (lit ''id'') = Inr cid \<and> string_form cid (e_sale_id e) \<and>
           py_getitem cart (lit ''total'') = Inr total \<and> float_cast total total_amount \<and>
           (case total_amount of
              Finite q \<Rightarrow> \<exists>r. e_amount e = Finite r \<and> rounded_2dp q r
            | _ \<Rightarrow> e_amount e = total_amount)"
    by blast
qed

text \<open>The run with one cart of total 12.345: the row's amount 12.35 is that total, rounded.\<close>

theorem amounts_rounded_witness:
  "pipeline ucd_latin1 (Inr (JArr [json_country ''US'' ''United States'' ''Americas'']))
     (one_page ''users'' [json_user 7 (JStr (lit ''US''))])
     (one_page ''carts'' [json_cart 1 7 (JFloat (Finite (12345 / 1000)))])
     = Inr [ex_enriched ''1'' (1235 / 100) (Some ''United States'') (Some ''Americas'')] \<and>
   string_form (JInt 1) (lit ''1'') \<and>
   float_cast (JFloat (Finite (12345 / 1000))) (Finite (12345 / 1000)) \<and>
   rounded_2dp (12345 / 1000) (1235 / 100)"
proof -
  note run = demo_pipeline [of ucd_latin1]
  have sale_id: "string_form (JInt 1) (lit ''1'')"
    by (simp add: decimal_numeral_def nat_of_digits_def lit_def)
  have amount: "float_cast (JFloat (Finite (12345 / 1000))) (Finite (12345 / 1000))"
    by simp
  have rounded: "rounded_2dp (12345 / 1000) (1235 / 100)"
    by (simp add: rounded_2dp_def)
  from amounts_rounded [OF run demo_carts] run sale_id amount rounded
  show ?thesis by blast
qed

text \<open>
  Claim C5 as stated fails on a cart whose total is written \<^verbatim>\<open>1e400\<close> in the body,
  which parses to infinity: the amount of its row is infinity, not a number with 2
  decimal places.
\<close>

theorem amounts_rounded_counterexample:
  "pipeline ucd_latin1 (Inr (JArr [json_country ''US'' ''United States'' ''Americas'']))
     (one_page ''users'' [json_user 7 (JStr (lit ''US''))])
     (one_page ''carts'' [json_cart 1 7 (JFloat PosInf)])
     = Inr [\<lparr>e_sale_id = lit ''1'', e_amount = PosInf,
             e_country_name = Some (lit ''United States''),
             e_region = Some (lit ''Americas'')\<rparr>]"
  by (simp add: python_defs engine_defs loader_defs builder_defs enrichment_defs example_defs)

section \<open>The scenario of one sale in the United States\<close>

text \<open>
  Claim C6, amended. Given a countries response with exactly the entry (US, United
  States, Americas), one user whose country is \<open>US\<close> and one cart of that user with id 1
  and total 12.345, the sales fact table is exactly (1, US, 12.35) and the enriched
  output is exactly (1, 12.35, United States, Americas).
\<close>

theorem scenario_us_sale:
  "get_sales_df ucd 20 (one_page ''users'' [json_user 7 (JStr (lit ''US''))])
     (one_page ''carts'' [json_cart 1 7 (JFloat (Finite (12345 / 1000)))])
     = Inr [ex_fact ''1'' (Some ''US'') (1235 / 100)] \<and>
   pipeline ucd (Inr (JArr [json_country ''US'' ''United States'' ''Americas'']))
     (one_page ''users'' [json_user 7 (JStr (lit ''US''))])
     (one_page ''carts'' [json_cart 1 7 (JFloat (Finite (12345 / 1000)))])
     = Inr [ex_enriched ''1'' (1235 / 100) (Some ''United States'') (Some ''Americas'')]"
  using demo_sales demo_pipeline by simp

text \<open>
  Claim C6 as stated fails: the enrichment join does not round. A sales fact table that
  holds the amount 12.345 gives an enriched row with 12.345, not 12.35.
\<close>

theorem scenario_us_sale_counterexample:
  "df_enriched [ex_fact ''1'' (Some ''US'') (12345 / 1000)]
     [ex_country ''US'' ''United States'' ''Americas'']
     = [ex_enriched ''1'' (12345 / 1000) (Some ''United States'') (Some ''Americas'')] \<and>
   df_enriched [ex_fact ''1'' (Some ''US'') (12345 / 1000)]
     [ex_country ''US'' ''United States'' ''Americas'']
     \<noteq> [ex_enriched ''1'' (1235 / 100) (Some ''United States'') (Some ''Americas'')]"
  by (simp add: lit_def engine_defs enrichment_defs example_defs)

section \<open>What is extracted from a cart\<close>

text \<open>
  Claim C7. For every fetched cart record, in order, the extracted \<open>sale_id\<close> is the
  string form of the cart's \<^verbatim>\<open>id\<close> (the decimal numeral of an integer id), the
  extracted \<open>userId\<close> is the cart's \<^verbatim>\<open>userId\<close>, and the extracted amount is the
  cart's \<^verbatim>\<open>total\<close> cast to a float (the double with the value of an integer total).
\<close>

theorem sales_rows_extract:
  assumes "sales_rows carts = Inr rows"
  shows "length rows = length carts \<and>
    (\<forall>i<length carts. \<exists>cid uid total.
        py_getitem (carts ! i) (lit ''id'') = Inr cid \<and>
        py_getitem (carts ! i) (lit ''userId'') = Inr uid \<and>
        py_getitem (carts ! i) (lit ''total'') = Inr total \<and>
        string_form cid (sd_sale_id (rows ! i)) \<and>
        sd_userId (rows ! i) = uid \<and>
        float_cast total (sd_amount (rows ! i)))"
proof -
  from assms have all: "list_all2 (\<lambda>cart d. sale_dict_of cart = Inr d) carts rows"
    by (simp add: sales_rows_def map_err_Inr_iff)
  then have len: "length rows = length carts"
    by (simp add: list_all2_lengthD)
  have "\<exists>cid uid total.
        py_getitem (carts ! i) (lit ''id'') = Inr cid \<and>
        py_getitem (carts ! i) (lit ''userId'') = Inr uid \<and>
        py_getitem (carts ! i) (lit ''total'') = Inr total \<and>
        string_form cid (sd_sale_id (rows ! i)) \<and>
        sd_userId (rows ! i) = uid \<and>
        float_cast total (sd_amount (rows ! i))" if "i < length carts" for i
  proof -
    from all that have "sale_dict_of (carts ! i) = Inr (rows ! i)"
      by (rule list_all2_nthD)
    from sale_dict_forms [OF this] show ?thesis by blast
  qed
  with len show ?thesis by blast
qed

text \<open>
  A cart with the id 1024 and the integer total 250, and a cart with a negative id and
  the total 12.345: the ids become the numerals \<open>1024\<close> and \<open>-30\<close>, the integer total
  the double 250.0.
\<close>

theorem sales_rows_extract_witness:
  "sales_rows [json_cart 1024 7 (JInt 250), json_cart (- 30) 8 (JFloat (Finite (12345 / 1000)))]
     = Inr [\<lparr>sd_sale_id = lit ''1024'', sd_userId = JInt 7, sd_amount = Finite 250\<rparr>,
            \<lparr>sd_sale_id = lit ''-30'', sd_userId = JInt 8, sd_amount = Finite (12345 / 1000)\<rparr>] \<and>
   string_form (JInt 1024) (lit ''1024'') \<and> string_form (JInt (- 30)) (lit ''-30'') \<and>
   float_cast (JInt 250) (Finite 250)"
proof -
  have rows: "sales_rows
       [json_cart 1024 7 (JInt 250), json_cart (- 30) 8 (JFloat (Finite (12345 / 1000)))]
     = Inr [\<lparr>sd_sale_id = lit ''1024'', sd_userId = JInt 7, sd_amount = Finite 250\<rparr>,
            \<lparr>sd_sale_id = lit ''-30'', sd_userId = JInt 8, sd_amount = Finite (12345 / 1000)\<rparr>]"
    by (simp add: python_defs builder_defs example_defs)
  have id1: "string_form (JInt 1024) (lit ''1024'')"
    by (simp add: decimal_numeral_def nat_of_digits_def lit_def)
  have id2: "string_form (JInt (- 30)) (lit ''-30'')"
    by (simp add: decimal_numeral_def nat_of_digits_def lit_def)
  have cast: "float_cast (JInt 250) (Finite 250)"
    by simp
  from sales_rows_extract [OF rows] rows id1 id2 cast show ?thesis
    by blast
qed

section \<open>A country of one character\<close>

text \<open>
  Claim C8, amended. For every user record whose address country is a string of one
  character, the derived \<open>country_code\<close> is the upper-case form of that character. When
  the character is ASCII, this is a string of one character, so it is neither a
  2-letter code nor the sentinel \<open>XX\<close>.
\<close>

theorem single_char_country:
  assumes "py_getitem u (lit ''address'') = Inr address"
      and "py_getitem address (lit ''country'') = Inr (JStr [c])"
  shows "country_code_of ucd u = Inr (upper_cp ucd c) \<and>
         (c < 128 \<longrightarrow> length (upper_cp ucd c) = 1 \<and> upper_cp ucd c \<noteq> lit ''XX'')"
  using assms
  by (auto simp: country_code_of_def py_or_def str_upper_single upper_cp_def lit_def)

text \<open>A user whose country is \<open>u\<close> gets the code \<open>U\<close>.\<close>

theorem single_char_country_witness:
  "country_code_of ucd_latin1 (json_user 7 (JStr (lit ''u''))) = Inr (lit ''U'')"
  using single_char_country [of "json_user 7 (JStr (lit ''u''))"
      "JObj [(lit ''country'', JStr (lit ''u''))]" 117 ucd_latin1]
  by (simp add: python_defs example_defs)

text \<open>
  Claim C8 as stated fails on the one-character country U+00DF (sharp s): its upper-case
  form is \<open>SS\<close>, two letters.
\<close>

theorem single_char_country_counterexample:
  "country_code_of ucd_latin1 (json_user 7 (JStr [223])) = Inr (lit ''SS'')"
  by (simp add: python_defs builder_defs example_defs)

section \<open>The enrichment join changes no field of a fact row\<close>

text \<open>
  Claim C9. The pairs (\<open>sale_id\<close>, \<open>amount\<close>) of the enriched rows are exactly the
  pairs of the fact rows: the join adds \<open>country_name\<close> and \<open>region\<close> and changes
  neither field. When no two countries share a code, the enriched table lists these
  pairs row by row as the fact table does.
\<close>

theorem enrichment_keeps_fact_fields:
  "(\<lambda>e. (e_sale_id e, e_amount e)) ` set (df_enriched df_sales df_countries) =
     (\<lambda>f. (f_sale_id f, f_amount f)) ` set df_sales \<and>
   (distinct (map c_country_code df_countries) \<longrightarrow>
      map (\<lambda>e. (e_sale_id e, e_amount e)) (df_enriched df_sales df_countries) =
      map (\<lambda>f. (f_sale_id f, f_amount f)) df_sales)"
  using enriched_projection enriched_projection_distinct by blast

text \<open>Two sales against two countries, one of them unmatched.\<close>

theorem enrichment_keeps_fact_fields_witness:
  "distinct (map c_country_code
     [ex_country ''US'' ''United States'' ''Americas'', ex_country ''FR'' ''France'' ''Europe'']) \<and>
   map (\<lambda>e. (e_sale_id e, e_amount e))
     (df_enriched [ex_fact ''1'' (Some ''US'') 10, ex_fact ''2'' (Some ''ZZ'') 5]
        [ex_country ''US'' ''United States'' ''Americas'', ex_country ''FR'' ''France'' ''Europe''])
     = [(lit ''1'', Finite 10), (lit ''2'', Finite 5)]"
  using enrichment_keeps_fact_fields [of
      "[ex_fact ''1'' (Some ''US'') 10, ex_fact ''2'' (Some ''ZZ'') 5]"
      "[ex_country ''US'' ''United States'' ''Americas'', ex_country ''FR'' ''France'' ''Europe'']"]
  by (simp add: lit_def example_defs)

section \<open>The output is a function of the three responses\<close>

text \<open>
  Claim C10. Any two runs of the pipeline on the same responses of the countries, users
  and carts endpoints write the same multiset of enriched rows, in whatever order the
  engine holds its tables.
\<close>

theorem pipeline_deterministic:
  assumes "pipeline_run ucd countries_resp users_api carts_api out1"
      and "pipeline_run ucd countries_resp users_api carts_api out2"
  shows "mset out1 = mset out2"
  using assms
proof (induction rule: pipeline_run.induct)
  case (run countries_resp tc dc ucd users_api tu du carts_api ts dk ds out)
  from run.prems show ?case
  proof (cases rule: pipeline_run.cases)
    case (run tc' dc' tu' du' ts' dk' ds')
    with run.hyps have "mset dc = mset dc'" "mset du = mset du'" "mset dk = mset dk'"
      by simp_all
    moreover from this run.hyps(7) run(7) have "mset ds = mset ds'"
      by (simp add: mset_sales_fact [of dk dk' du du'])
    ultimately show ?thesis
      using run.hyps(8) run(8) by (simp add: mset_df_enriched [of ds ds' dc dc'])
  qed
qed

text \<open>Two runs on two countries, two users and two carts that write the rows in opposite orders.\<close>

theorem pipeline_deterministic_witness:
  "pipeline_run ucd_latin1
     (Inr (JArr [json_country ''US'' ''United States'' ''Americas'',
                 json_country ''FR'' ''France'' ''Europe'']))
     (one_page ''users'' [json_user 7 (JStr (lit ''US'')), json_user 8 (JStr (lit ''france''))])
     (one_page ''carts'' [json_cart 1 7 (JInt 10), json_cart 2 8 (JInt 5)])
     [ex_enriched ''1'' 10 (Some ''United States'') (Some ''Americas''),
      ex_enriched ''2'' 5 (Some ''France'') (Some ''Europe'')] \<and>
   pipeline_run ucd_latin1
     (Inr (JArr [json_country ''US'' ''United States'' ''Americas'',
                 json_country ''FR'' ''France'' ''Europe'']))
     (one_page ''users'' [json_user 7 (JStr (lit ''US'')), json_user 8 (JStr (lit ''france''))])
     (one_page ''carts'' [json_cart 1 7 (JInt 10), json_cart 2 8 (JInt 5)])
     [ex_enriched ''2'' 5 (Some ''France'') (Some ''Europe''),
      ex_enriched ''1'' 10 (Some ''United States'') (Some ''Americas'')] \<and>
   mset [ex_enriched ''1'' 10 (Some ''United States'') (Some ''Americas''),
         ex_enriched ''2'' 5 (Some ''France'') (Some ''Europe'')]
   = mset [ex_enriched ''2'' 5 (Some ''France'') (Some ''Europe''),
           ex_enriched ''1'' 10 (Some ''United States'') (Some ''Americas'')]"
proof -
  note r1 = pipeline_is_run [OF demo_two_sales [of ucd_latin1]]
  have r2: "pipeline_run ucd_latin1
     (Inr (JArr [json_country ''US'' ''United States'' ''Americas'',
                 json_country ''FR'' ''France'' ''Europe'']))
     (one_page ''users'' [json_user 7 (JStr (lit ''US'')), json_user 8 (JStr (lit ''france''))])
     (one_page ''carts'' [json_cart 1 7 (JInt 10), json_cart 2 8 (JInt 5)])
     [ex_enriched ''2'' 5 (Some ''France'') (Some ''Europe''),
      ex_enriched ''1'' 10 (Some ''United States'') (Some ''Americas'')]"
    by (rule pipeline_run_perm [OF r1]) (simp add: add.commute)
  from pipeline_deterministic [OF r1 r2] r1 r2 show ?thesis
    by simp
qed

end
